theory Spec2Isabelle
  imports Main
begin

section \<open>Data model of the Kodak Smart Home camera platform\<close>

text \<open>
  The development embeds \<^verbatim>\<open>custom_components/kodak_smart_thome/camera.py\<close>.
  Python dictionaries with a fixed set of keys are records. A key that the source tests
  for with \<^verbatim>\<open>in\<close> before reading it, or reads without a test although the vendor data
  need not carry it, is an \<open>option\<close> field: \<open>None\<close> is the missing key, and reading
  it unguarded raises \<open>KeyError\<close>.
  Timestamps (\<^verbatim>\<open>datetime\<close>) are integers counting microseconds, the resolution
  of Python's \<^verbatim>\<open>datetime\<close> and \<^verbatim>\<open>timedelta\<close>.
\<close>

datatype py_error = KeyError | Raised string

text \<open>One entry of an event's \<^verbatim>\<open>"data"\<close> list; \<open>file_ref\<close> is the key \<^verbatim>\<open>"file"\<close>.\<close>

record event_data =
  file_type :: "int option"
  file_ref :: "string option"

text \<open>One motion event; the source reads \<^verbatim>\<open>["id"]\<close> and \<^verbatim>\<open>["data"]\<close>.\<close>

record motion_event =
  id_ev :: int
  data :: "event_data list"

text \<open>The device dictionary handed to the entity.\<close>

record camera_rec =
  device_id :: string
  name :: string
  is_online :: bool
  firmware_version :: string
  zone_id :: string

text \<open>\<^verbatim>\<open>hass.data[DATA_FFMPEG]\<close>: the manager of the ffmpeg binary.\<close>

record ffmpeg_manager =
  binary :: string
  ffmpeg_stream_content_type :: string

text \<open>
  The attributes of a \<^verbatim>\<open>KodakSmartHomeCam\<close> instance that its methods read or
  write (\<^verbatim>\<open>_name\<close>, \<^verbatim>\<open>_hass\<close> and \<^verbatim>\<open>_kodak_data\<close> only feed logging and
  the event fetch, which is a parameter here).
\<close>

record kodak_cam =
  camera :: camera_rec
  motion_events :: "motion_event list"
  ffmpeg :: ffmpeg_manager
  ffmpeg_arguments :: "string option"
  last_video_id :: "int option"
  video_url :: "string option"
  utcnow :: int
  expires_at :: int

definition CONF_FFMPEG_ARGUMENTS :: string where
  "CONF_FFMPEG_ARGUMENTS = ''ffmpeg_arguments''"

text \<open>\<^verbatim>\<open>timedelta(minutes=45)\<close>, in microseconds.\<close>

definition FORCE_REFRESH_INTERVAL :: int where
  "FORCE_REFRESH_INTERVAL = 45 * 60 * 1000000"

section \<open>Extraction of the video URL\<close>

text \<open>
  \<^verbatim>\<open>_get_event_video_url\<close>: the loop returns the \<^verbatim>\<open>"file"\<close> entry of the first
  item whose \<^verbatim>\<open>"file_type"\<close> is present and equal to 2, and \<^verbatim>\<open>None\<close> when the loop
  runs out. The read of \<^verbatim>\<open>event_data["file"]\<close> is unguarded.
\<close>

fun get_event_video_url :: "event_data list \<Rightarrow> py_error + string option" where
  "get_event_video_url [] = Inr None"
| "get_event_video_url (event_data # rest) =
     (if file_type event_data \<noteq> None \<and> file_type event_data = Some 2 then
        (case file_ref event_data of
           None \<Rightarrow> Inl KeyError
         | Some url \<Rightarrow> Inr (Some url))
      else get_event_video_url rest)"

text \<open>Python's truth value of \<^verbatim>\<open>None\<close> or a string.\<close>

fun truthy :: "string option \<Rightarrow> bool" where
  "truthy None = False"
| "truthy (Some u) = (u \<noteq> [])"

section \<open>Construction\<close>

text \<open>
  \<^verbatim>\<open>__init__\<close>. The arguments are the device dictionary, the platform configuration
  (\<^verbatim>\<open>device_info\<close>, a dictionary), and what the constructor reads from its
  surroundings: \<^verbatim>\<open>hass.data[DATA_FFMPEG]\<close>, the event list that
  \<^verbatim>\<open>get_motion_events\<close> returns for the device, and the clock \<^verbatim>\<open>dt_util.utcnow()\<close>.
  An exception leaves no instance.
\<close>

definition init ::
  "ffmpeg_manager \<Rightarrow> camera_rec \<Rightarrow> (string \<rightharpoonup> string) \<Rightarrow> motion_event list \<Rightarrow> int
     \<Rightarrow> py_error + kodak_cam" where
  "init hass_ffmpeg camera_arg device_info fetched now =
     (let last_video_id_new =
            (if length fetched > 0 then Some (id_ev (last fetched)) else None);
          video_url_new =
            (if last_video_id_new \<noteq> None then get_event_video_url (data (last fetched))
             else Inr None)
      in case video_url_new of
           Inl e \<Rightarrow> Inl e
         | Inr url \<Rightarrow>
             Inr \<lparr> camera = camera_arg,
                   motion_events = fetched,
                   ffmpeg = hass_ffmpeg,
                   ffmpeg_arguments = device_info CONF_FFMPEG_ARGUMENTS,
                   last_video_id = last_video_id_new,
                   video_url = url,
                   utcnow = now,
                   expires_at = FORCE_REFRESH_INTERVAL + now \<rparr>)"

section \<open>Refresh\<close>

text \<open>
  \<^verbatim>\<open>update\<close>. \<open>fetched\<close> is what \<^verbatim>\<open>get_motion_events\<close> returns during the
  call and \<open>now\<close> the clock. The method returns nothing; the result pairs its
  outcome (an exception or a normal return) with the instance afterwards, since the
  assignment to \<^verbatim>\<open>_utcnow\<close> precedes every exit.
\<close>

definition update ::
  "kodak_cam \<Rightarrow> int \<Rightarrow> motion_event list \<Rightarrow> (py_error + unit) \<times> kodak_cam" where
  "update self now fetched =
     (let self1 = self\<lparr>utcnow := now\<rparr> in
      if length fetched > 0 then
        (let last_events_data = data (last fetched);
             last_event_id = id_ev (last fetched)
         in if last_video_id self1 \<noteq> Some last_event_id \<or> utcnow self1 \<ge> expires_at self1 then
              (case get_event_video_url last_events_data of
                 Inl e \<Rightarrow> (Inl e, self1)
               | Inr url \<Rightarrow>
                   if truthy url then
                     (Inr (), self1\<lparr>last_video_id := Some last_event_id,
                                     video_url := url,
                                     expires_at := FORCE_REFRESH_INTERVAL + utcnow self1\<rparr>)
                   else (Inr (), self1))
            else (Inr (), self1))
      else (Inr (), self1))"

text \<open>
  The host's update cycle: one \<^verbatim>\<open>update\<close> per poll, each with its clock reading and
  the event list fetched then. An exception of one poll is the host's to log; the
  instance lives on as the poll left it.
\<close>

fun polls :: "kodak_cam \<Rightarrow> (int \<times> motion_event list) list \<Rightarrow> kodak_cam" where
  "polls self [] = self"
| "polls self ((now, fetched) # rest) = polls (snd (update self now fetched)) rest"

section \<open>Still image and stream\<close>

text \<open>
  The two coroutines talk to collaborators outside the repository: the ffmpeg wrappers
  \<^verbatim>\<open>ImageFrame\<close> and \<^verbatim>\<open>CameraMjpeg\<close> of haffmpeg and the host's
  \<^verbatim>\<open>async_aiohttp_proxy_stream\<close>. Each awaited call either returns or raises (a
  cancellation at the await is a raise as well); a \<open>collaborators\<close> record fixes what
  each call does, and the coroutine's result comes with the list of calls it made, in
  order. Building a wrapper object is listed too. \<^verbatim>\<open>asyncio.shield\<close> only changes
  what a cancellation from outside reaches and has no counterpart here.
\<close>

type_synonym bytes = "nat list"

datatype call =
    New_ImageFrame string
  | Call_get_image string string "string option"
  | New_CameraMjpeg string
  | Call_open_camera string "string option"
  | Call_get_reader
  | Call_async_aiohttp_proxy_stream string nat string
  | Call_close

record collaborators =
  IMAGE_JPEG :: string
  get_image :: "string \<Rightarrow> string \<Rightarrow> string option \<Rightarrow> py_error + bytes option"
  open_camera :: "string \<Rightarrow> string option \<Rightarrow> py_error + unit"
  get_reader :: "py_error + nat"
  async_aiohttp_proxy_stream :: "string \<Rightarrow> nat \<Rightarrow> string \<Rightarrow> py_error + string"
  close :: "py_error + unit"

text \<open>
  The calls that run the transcoding helper: a frame grab, and the opening, reading and
  closing of a stream. Building a wrapper object starts nothing, and the proxy utility
  is the host's.
\<close>

fun helper_invoked :: "call \<Rightarrow> bool" where
  "helper_invoked (Call_get_image _ _ _) = True"
| "helper_invoked (Call_open_camera _ _) = True"
| "helper_invoked Call_get_reader = True"
| "helper_invoked Call_close = True"
| "helper_invoked _ = False"

text \<open>
  Python's \<^verbatim>\<open>try: ... finally: ...\<close>: the \<^verbatim>\<open>finally\<close> block runs after the body
  however the body ended; its own exception replaces the body's result.
\<close>

definition try_finally ::
  "(py_error + 'a) \<times> call list \<Rightarrow> (py_error + unit) \<times> call list \<Rightarrow> (py_error + 'a) \<times> call list" where
  "try_finally body fin =
     (case fst fin of
        Inl e \<Rightarrow> (Inl e, snd body @ snd fin)
      | Inr _ \<Rightarrow> (fst body, snd body @ snd fin))"

text \<open>\<^verbatim>\<open>async_camera_image\<close>: the wrapper is built before the test of the URL.\<close>

definition async_camera_image ::
  "collaborators \<Rightarrow> kodak_cam \<Rightarrow> (py_error + bytes option) \<times> call list" where
  "async_camera_image env self =
     (let built = [New_ImageFrame (binary (ffmpeg self))] in
      case video_url self of
        None \<Rightarrow> (Inr None, built)
      | Some url \<Rightarrow>
          (get_image env url (IMAGE_JPEG env) (ffmpeg_arguments self),
           built @ [Call_get_image url (IMAGE_JPEG env) (ffmpeg_arguments self)]))"

text \<open>
  \<^verbatim>\<open>handle_async_mjpeg_stream\<close>: \<^verbatim>\<open>open_camera\<close> is awaited before the
  \<^verbatim>\<open>try\<close>; the reader and the proxy copy are its body, \<^verbatim>\<open>close\<close> its
  \<^verbatim>\<open>finally\<close>.
\<close>

definition handle_async_mjpeg_stream ::
  "collaborators \<Rightarrow> kodak_cam \<Rightarrow> string \<Rightarrow> (py_error + string option) \<times> call list" where
  "handle_async_mjpeg_stream env self request =
     (case video_url self of
        None \<Rightarrow> (Inr None, [])
      | Some url \<Rightarrow>
          (let opening = [New_CameraMjpeg (binary (ffmpeg self)),
                          Call_open_camera url (ffmpeg_arguments self)]
           in case open_camera env url (ffmpeg_arguments self) of
                Inl e \<Rightarrow> (Inl e, opening)
              | Inr _ \<Rightarrow>
                  (let content_type = ffmpeg_stream_content_type (ffmpeg self);
                       body =
                         (case get_reader env of
                            Inl e \<Rightarrow> (Inl e, [Call_get_reader])
                          | Inr stream_reader \<Rightarrow>
                              (map_sum (\<lambda>e. e) Some
                                 (async_aiohttp_proxy_stream env request stream_reader content_type),
                               [Call_get_reader,
                                Call_async_aiohttp_proxy_stream request stream_reader content_type]));
                       (result, calls) = try_finally body (close env, [Call_close])
                   in (result, opening @ calls))))"

section \<open>Sample data\<close>

text \<open>Concrete devices, events and states on which the results below are evaluated.\<close>

definition ex_camera :: camera_rec where
  "ex_camera = \<lparr> device_id = ''cam-1'', name = ''Porch'', is_online = True,
                  firmware_version = ''1.0.3'', zone_id = ''Europe/London'' \<rparr>"

definition ex_ffmpeg :: ffmpeg_manager where
  "ex_ffmpeg = \<lparr> binary = ''ffmpeg'',
                  ffmpeg_stream_content_type = ''multipart/x-mixed-replace'' \<rparr>"

definition ex_image :: event_data where
  "ex_image = \<lparr> file_type = Some 1, file_ref = Some ''https://cdn.example/a.jpg'' \<rparr>"

definition ex_video_a :: event_data where
  "ex_video_a = \<lparr> file_type = Some 2, file_ref = Some ''https://cdn.example/a.mp4'' \<rparr>"

definition ex_video_b :: event_data where
  "ex_video_b = \<lparr> file_type = Some 2, file_ref = Some ''https://cdn.example/b.mp4'' \<rparr>"

definition ex_video_empty :: event_data where
  "ex_video_empty = \<lparr> file_type = Some 2, file_ref = Some [] \<rparr>"

definition ex_event_a :: motion_event where
  "ex_event_a = \<lparr> id_ev = 1, data = [ex_image, ex_video_a] \<rparr>"

definition ex_event_b :: motion_event where
  "ex_event_b = \<lparr> id_ev = 2, data = [ex_video_b] \<rparr>"

text \<open>An event whose video has not arrived: a snapshot only.\<close>

definition ex_event_c :: motion_event where
  "ex_event_c = \<lparr> id_ev = 3, data = [ex_image] \<rparr>"

text \<open>Event 1 again, its first video item carrying an empty file reference.\<close>

definition ex_event_a_empty :: motion_event where
  "ex_event_a_empty = \<lparr> id_ev = 1, data = [ex_video_empty, ex_video_a] \<rparr>"

text \<open>A video item that lacks the \<^verbatim>\<open>"file"\<close> key, and an event made of it alone.\<close>

definition ex_video_nofile :: event_data where
  "ex_video_nofile = \<lparr> file_type = Some 2, file_ref = None \<rparr>"

definition ex_event_nofile :: motion_event where
  "ex_event_nofile = \<lparr> id_ev = 4, data = [ex_video_nofile] \<rparr>"

text \<open>The instance built at time 0 from the single event \<open>ex_event_a\<close>.\<close>

definition ex_cam :: kodak_cam where
  "ex_cam = \<lparr> camera = ex_camera, motion_events = [ex_event_a], ffmpeg = ex_ffmpeg,
               ffmpeg_arguments = None, last_video_id = Some 1,
               video_url = Some ''https://cdn.example/a.mp4'',
               utcnow = 0, expires_at = 2700000000 \<rparr>"

text \<open>The instance built at time 0 for a device without events.\<close>

definition ex_cam_empty :: kodak_cam where
  "ex_cam_empty = \<lparr> camera = ex_camera, motion_events = [], ffmpeg = ex_ffmpeg,
                     ffmpeg_arguments = None, last_video_id = None, video_url = None,
                     utcnow = 0, expires_at = 2700000000 \<rparr>"

text \<open>Collaborators whose stream opens and yields a reader, and whose client hangs up.\<close>

definition ex_env :: collaborators where
  "ex_env = \<lparr> IMAGE_JPEG = ''mjpeg'',
               get_image = (\<lambda>_ _ _. Inr (Some [255, 216, 255])),
               open_camera = (\<lambda>_ _. Inr ()),
               get_reader = Inr 7,
               async_aiohttp_proxy_stream = (\<lambda>_ _ _. Inl (Raised ''ConnectionResetError'')),
               close = Inr () \<rparr>"

section \<open>Properties of the URL extraction\<close>

text \<open>
  The loop finds the first item tagged 2 and nothing else; it raises exactly when that
  item has no \<^verbatim>\<open>"file"\<close> key.
\<close>

lemma get_event_video_url_find:
  "get_event_video_url ds =
     (case find (\<lambda>d. file_type d = Some 2) ds of
        None \<Rightarrow> Inr None
      | Some d \<Rightarrow> (case file_ref d of None \<Rightarrow> Inl KeyError | Some u \<Rightarrow> Inr (Some u)))"
  by (induction ds) (auto split: option.splits)

lemma get_event_video_url_no_video:
  "\<forall>d\<in>set ds. file_type d \<noteq> Some 2 \<Longrightarrow> get_event_video_url ds = Inr None"
  by (induction ds) auto

lemma get_event_video_url_mem:
  "get_event_video_url ds = Inr (Some u) \<Longrightarrow>
     \<exists>d\<in>set ds. file_type d = Some 2 \<and> file_ref d = Some u"
  by (induction ds) (auto split: if_splits option.splits)

section \<open>Refresh on an empty and on a non-empty event list\<close>

lemma update_empty: "update self t [] = (Inr (), self\<lparr>utcnow := t\<rparr>)"
  by (simp add: update_def)

text \<open>With a newest event \<open>ev\<close>, the method is its two nested tests.\<close>

lemma update_last:
  "update self now (evs @ [ev]) =
     (if last_video_id self \<noteq> Some (id_ev ev) \<or> now \<ge> expires_at self then
        (case get_event_video_url (data ev) of
           Inl e \<Rightarrow> (Inl e, self\<lparr>utcnow := now\<rparr>)
         | Inr url \<Rightarrow>
             if truthy url then
               (Inr (), self\<lparr>utcnow := now, last_video_id := Some (id_ev ev), video_url := url,
                              expires_at := FORCE_REFRESH_INTERVAL + now\<rparr>)
             else (Inr (), self\<lparr>utcnow := now\<rparr>))
      else (Inr (), self\<lparr>utcnow := now\<rparr>))"
  by (simp add: update_def Let_def split: sum.splits)

lemma polls_empty_fields:
  "last_video_id (polls self (map (\<lambda>t. (t, [])) ts)) = last_video_id self \<and>
   video_url (polls self (map (\<lambda>t. (t, [])) ts)) = video_url self \<and>
   expires_at (polls self (map (\<lambda>t. (t, [])) ts)) = expires_at self"
  by (induction ts arbitrary: self) (simp_all add: update_empty)

section \<open>Construction (C2)\<close>

text \<open>
  As stated, C2 has construction set the three attributes for every event list. The
  constructor reads \<^verbatim>\<open>event_data["file"]\<close> unguarded, here as everywhere in the
  source: when the first item tagged 2 of the newest event has no \<^verbatim>\<open>"file"\<close>
  key, the read raises \<open>KeyError\<close>, no instance results, and neither \<open>video_url\<close>
  nor \<open>expires_at\<close> is ever assigned.
\<close>

theorem init_video_item_without_file_raises:
  "find (\<lambda>d. file_type d = Some 2) (data (last [ex_event_a, ex_event_nofile]))
     = Some ex_video_nofile \<and>
   file_ref ex_video_nofile = None \<and>
   init ex_ffmpeg ex_camera Map.empty [ex_event_a, ex_event_nofile] 0 = Inl KeyError"
  by (simp add: init_def Let_def ex_event_nofile_def ex_video_nofile_def)

text \<open>
  C2, amended. For every device record and every event list available at construction
  time, unless the first data item tagged 2 of the last event has no \<^verbatim>\<open>"file"\<close>
  key (construction then raises \<open>KeyError\<close> and leaves no instance), construction
  sets \<open>last_video_id\<close> to the identifier of the last event (absent for an empty
  list), \<open>video_url\<close> to the file reference of the first data item of that last event
  whose file-type tag equals 2 (absent for an empty list or when no item matches), and
  \<open>expires_at\<close> to the construction time plus 45 minutes.
\<close>

theorem init_sets_state:
  "init f cam cfg fetched now =
     (if fetched \<noteq> [] \<and>
         (\<exists>d. find (\<lambda>d. file_type d = Some 2) (data (last fetched)) = Some d \<and>
              file_ref d = None)
      then Inl KeyError
      else Inr \<lparr> camera = cam, motion_events = fetched, ffmpeg = f,
                 ffmpeg_arguments = cfg ''ffmpeg_arguments'',
                 last_video_id = (if fetched = [] then None else Some (id_ev (last fetched))),
                 video_url =
                   (if fetched = [] then None
                    else case find (\<lambda>d. file_type d = Some 2) (data (last fetched)) of
                           None \<Rightarrow> None
                         | Some d \<Rightarrow> file_ref d),
                 utcnow = now,
                 expires_at = now + 45 * 60 * 1000000 \<rparr>)"
  by (auto simp: init_def Let_def get_event_video_url_find CONF_FFMPEG_ARGUMENTS_def
        FORCE_REFRESH_INTERVAL_def split: option.splits)

theorem init_sets_state_witness:
  "init ex_ffmpeg ex_camera Map.empty [ex_event_a] 0 = Inr ex_cam"
  using init_sets_state [of ex_ffmpeg ex_camera Map.empty "[ex_event_a]" 0]
  by (simp add: ex_cam_def ex_event_a_def ex_image_def ex_video_a_def)

section \<open>The empty event list (C4)\<close>

text \<open>
  C4. For every device whose event list is empty, \<open>video_url\<close> and \<open>last_video_id\<close>
  are absent after construction, and a refresh that fetches an empty list returns
  normally and leaves \<open>last_video_id\<close>, \<open>video_url\<close> and \<open>expires_at\<close> as they
  were; the same holds after any number of consecutive refreshes (at any times \<open>ts\<close>)
  while the list stays empty, from the constructed state and from any other. Only the
  cached clock reading \<open>utcnow\<close> moves.
\<close>

theorem empty_sequence_is_noop:
  "(\<exists>s0. init f cam cfg [] now = Inr s0 \<and>
         last_video_id s0 = None \<and> video_url s0 = None \<and>
         last_video_id (polls s0 (map (\<lambda>t. (t, [])) ts)) = None \<and>
         video_url (polls s0 (map (\<lambda>t. (t, [])) ts)) = None \<and>
         expires_at (polls s0 (map (\<lambda>t. (t, [])) ts)) = expires_at s0) \<and>
   fst (update self t []) = Inr () \<and>
   last_video_id (snd (update self t [])) = last_video_id self \<and>
   video_url (snd (update self t [])) = video_url self \<and>
   expires_at (snd (update self t [])) = expires_at self \<and>
   last_video_id (polls self (map (\<lambda>t. (t, [])) ts)) = last_video_id self \<and>
   video_url (polls self (map (\<lambda>t. (t, [])) ts)) = video_url self \<and>
   expires_at (polls self (map (\<lambda>t. (t, [])) ts)) = expires_at self"
proof -
  have "\<exists>s0. init f cam cfg [] now = Inr s0 \<and> last_video_id s0 = None \<and> video_url s0 = None"
    by (simp add: init_def)
  then show ?thesis
    using polls_empty_fields by (auto simp: update_empty)
qed

theorem empty_sequence_is_noop_witness:
  "init ex_ffmpeg ex_camera Map.empty [] 0 = Inr ex_cam_empty \<and>
   last_video_id (polls ex_cam_empty [(600000000, []), (1200000000, []), (3000000000, [])]) = None \<and>
   video_url (polls ex_cam_empty [(600000000, []), (1200000000, []), (3000000000, [])]) = None \<and>
   expires_at (polls ex_cam_empty [(600000000, []), (1200000000, []), (3000000000, [])]) = 2700000000"
  using empty_sequence_is_noop
    [of ex_ffmpeg ex_camera Map.empty 0 "[600000000, 1200000000, 3000000000]" ex_cam_empty 0]
  by (simp add: ex_cam_empty_def init_def CONF_FFMPEG_ARGUMENTS_def FORCE_REFRESH_INTERVAL_def)

section \<open>The refresh trigger (C1)\<close>

text \<open>
  As stated, C1 makes the reset of \<open>expires_at\<close> follow from the trigger alone. The
  source resets it inside the test \<^verbatim>\<open>if video_url:\<close>. At time 1 s the list
  \<open>[ex_event_a, ex_event_c]\<close> shows \<open>ex_cam\<close> a new identifier, so the trigger
  holds, but the new event has no video item and \<open>expires_at\<close> stays where it was.
\<close>

theorem update_trigger_without_video_keeps_expiry:
  "last_video_id ex_cam \<noteq> Some (id_ev (last [ex_event_a, ex_event_c])) \<and>
   expires_at (snd (update ex_cam 1000000 [ex_event_a, ex_event_c])) = expires_at ex_cam \<and>
   expires_at ex_cam \<noteq> 1000000 + 45 * 60 * 1000000"
  by (simp add: update_def ex_cam_def ex_event_a_def ex_event_c_def ex_image_def ex_video_a_def)

text \<open>
  C1, amended. For every state and every fetched list with a newest event \<open>ev\<close>, the
  refresh runs the URL extraction on the data of \<open>ev\<close> if and only if the identifier
  of \<open>ev\<close> differs from \<open>last_video_id\<close> or the current time is at or past
  \<open>expires_at\<close>: under that condition its outcome and effect are those of the
  extraction (an exception of the extraction is the refresh's own), and otherwise it
  returns normally whatever the data hold. It sets \<open>last_video_id\<close> and \<open>video_url\<close>
  and resets \<open>expires_at\<close> to the current time plus 45 minutes if and only if the
  condition holds and the extraction yields a non-empty URL; in every other case
  \<open>last_video_id\<close>, \<open>video_url\<close> and \<open>expires_at\<close> are left unchanged.
\<close>

theorem update_adopts_iff_trigger_and_url:
  "(if last_video_id self \<noteq> Some (id_ev ev) \<or> now \<ge> expires_at self then
      (case get_event_video_url (data ev) of
         Inl e \<Rightarrow>
           fst (update self now (evs @ [ev])) = Inl e \<and>
           last_video_id (snd (update self now (evs @ [ev]))) = last_video_id self \<and>
           video_url (snd (update self now (evs @ [ev]))) = video_url self \<and>
           expires_at (snd (update self now (evs @ [ev]))) = expires_at self
       | Inr url \<Rightarrow>
           fst (update self now (evs @ [ev])) = Inr () \<and>
           (if truthy url then
              last_video_id (snd (update self now (evs @ [ev]))) = Some (id_ev ev) \<and>
              video_url (snd (update self now (evs @ [ev]))) = url \<and>
              expires_at (snd (update self now (evs @ [ev]))) = now + 45 * 60 * 1000000
            else
              last_video_id (snd (update self now (evs @ [ev]))) = last_video_id self \<and>
              video_url (snd (update self now (evs @ [ev]))) = video_url self \<and>
              expires_at (snd (update self now (evs @ [ev]))) = expires_at self))
    else
      fst (update self now (evs @ [ev])) = Inr () \<and>
      last_video_id (snd (update self now (evs @ [ev]))) = last_video_id self \<and>
      video_url (snd (update self now (evs @ [ev]))) = video_url self \<and>
      expires_at (snd (update self now (evs @ [ev]))) = expires_at self)"
  by (simp add: update_last FORCE_REFRESH_INTERVAL_def split: sum.splits)

text \<open>A new event with a video is adopted; the same list polled again changes nothing.\<close>

theorem update_adopts_iff_trigger_and_url_witness:
  "fst (update ex_cam 1000000 ([ex_event_a] @ [ex_event_b])) = Inr () \<and>
   last_video_id (snd (update ex_cam 1000000 ([ex_event_a] @ [ex_event_b]))) = Some 2 \<and>
   video_url (snd (update ex_cam 1000000 ([ex_event_a] @ [ex_event_b])))
     = Some ''https://cdn.example/b.mp4'' \<and>
   expires_at (snd (update ex_cam 1000000 ([ex_event_a] @ [ex_event_b]))) = 2701000000 \<and>
   expires_at (snd (update ex_cam 1000000 ([] @ [ex_event_a]))) = 2700000000"
  using update_adopts_iff_trigger_and_url [of ex_cam ex_event_b 1000000 "[ex_event_a]"]
    update_adopts_iff_trigger_and_url [of ex_cam ex_event_a 1000000 "[]"]
  by (simp add: ex_cam_def ex_event_a_def ex_event_b_def ex_image_def ex_video_a_def ex_video_b_def)

section \<open>A newest event without a video item (C3)\<close>

text \<open>
  C3. For every state and every fetched list whose newest event \<open>ev\<close> has no data item
  with file-type tag 2, the refresh returns normally (no exception) and leaves
  \<open>video_url\<close> and \<open>last_video_id\<close> at their prior values, whether or not the refresh
  trigger holds; \<open>expires_at\<close> stays as well.
\<close>

theorem update_without_video_item_keeps_url:
  assumes "\<forall>d\<in>set (data ev). file_type d \<noteq> Some 2"
  shows "fst (update self now (evs @ [ev])) = Inr () \<and>
         video_url (snd (update self now (evs @ [ev]))) = video_url self \<and>
         last_video_id (snd (update self now (evs @ [ev]))) = last_video_id self \<and>
         expires_at (snd (update self now (evs @ [ev]))) = expires_at self"
  using assms by (simp add: update_last get_event_video_url_no_video)

text \<open>The trigger holds twice over here: a new identifier, and a time past the deadline.\<close>

theorem update_without_video_item_keeps_url_witness:
  "last_video_id ex_cam \<noteq> Some (id_ev ex_event_c) \<and>
   expires_at ex_cam \<le> 2800000000 \<and>
   fst (update ex_cam 2800000000 ([ex_event_a] @ [ex_event_c])) = Inr () \<and>
   video_url (snd (update ex_cam 2800000000 ([ex_event_a] @ [ex_event_c])))
     = Some ''https://cdn.example/a.mp4'' \<and>
   last_video_id (snd (update ex_cam 2800000000 ([ex_event_a] @ [ex_event_c]))) = Some 1 \<and>
   expires_at (snd (update ex_cam 2800000000 ([ex_event_a] @ [ex_event_c]))) = 2700000000"
  using update_without_video_item_keeps_url [of ex_event_c ex_cam 2800000000 "[ex_event_a]"]
  by (simp add: ex_cam_def ex_event_c_def ex_image_def)

section \<open>Idempotence before expiry (C5)\<close>

text \<open>
  C5. For every state, two refreshes with the same fetched list, the second made
  strictly before the \<open>expires_at\<close> then in force, leave the instance after the second
  call as it was after the first: \<open>last_video_id\<close>, \<open>video_url\<close> and \<open>expires_at\<close>
  are identical, and so is every other attribute but the cached clock reading
  \<open>utcnow\<close>. The first call may come at any time: if it falls at or past the deadline
  it moves the deadline or leaves everything alone, and the second call then sees the
  same list before the deadline in force.
\<close>

theorem update_idempotent_before_expiry:
  assumes "t2 < expires_at (snd (update self t1 fetched))"
  shows "snd (update (snd (update self t1 fetched)) t2 fetched)
           = (snd (update self t1 fetched))\<lparr>utcnow := t2\<rparr> \<and>
         last_video_id (snd (update (snd (update self t1 fetched)) t2 fetched))
           = last_video_id (snd (update self t1 fetched)) \<and>
         video_url (snd (update (snd (update self t1 fetched)) t2 fetched))
           = video_url (snd (update self t1 fetched)) \<and>
         expires_at (snd (update (snd (update self t1 fetched)) t2 fetched))
           = expires_at (snd (update self t1 fetched))"
proof -
  have "snd (update (snd (update self t1 fetched)) t2 fetched)
          = (snd (update self t1 fetched))\<lparr>utcnow := t2\<rparr>"
  proof (cases fetched rule: rev_cases)
    case Nil
    then show ?thesis by (simp add: update_empty)
  next
    case (snoc evs ev)
    with assms show ?thesis
      by (auto simp: update_last split: sum.splits if_splits)
  qed
  then show ?thesis by simp
qed

theorem update_idempotent_before_expiry_witness:
  "1000000 < expires_at ex_cam \<and>
   2000000 < expires_at (snd (update ex_cam 1000000 [ex_event_a, ex_event_b])) \<and>
   video_url (snd (update ex_cam 1000000 [ex_event_a, ex_event_b]))
     = Some ''https://cdn.example/b.mp4'' \<and>
   snd (update (snd (update ex_cam 1000000 [ex_event_a, ex_event_b])) 2000000
          [ex_event_a, ex_event_b])
     = (snd (update ex_cam 1000000 [ex_event_a, ex_event_b]))\<lparr>utcnow := 2000000\<rparr>"
proof -
  have h: "2000000 < expires_at (snd (update ex_cam 1000000 [ex_event_a, ex_event_b]))"
    by (simp add: update_def ex_cam_def ex_event_a_def ex_event_b_def ex_video_b_def FORCE_REFRESH_INTERVAL_def)
  have u: "video_url (snd (update ex_cam 1000000 [ex_event_a, ex_event_b]))
             = Some ''https://cdn.example/b.mp4''"
    by (simp add: update_def ex_cam_def ex_event_a_def ex_event_b_def ex_video_b_def)
  have e: "1000000 < expires_at ex_cam"
    by (simp add: ex_cam_def)
  from update_idempotent_before_expiry [OF h] h u e show ?thesis by simp
qed

section \<open>Forced refresh (C6)\<close>

text \<open>
  As stated, C6 asks only that the newest event contain a type-2 item. The refresh
  adopts under \<^verbatim>\<open>if video_url:\<close>, so an empty file reference on the first such item
  counts as none. At time 3000 s, past the deadline of \<open>ex_cam\<close>, event 1 comes back
  with an empty reference on its first video item (and a proper one on the second), and
  \<open>expires_at\<close> does not move.
\<close>

theorem forced_refresh_empty_url_keeps_expiry:
  "expires_at ex_cam \<le> 3000000000 \<and>
   ex_video_a \<in> set (data ex_event_a_empty) \<and> file_type ex_video_a = Some 2 \<and>
   last_video_id ex_cam = Some (id_ev ex_event_a_empty) \<and>
   fst (update ex_cam 3000000000 [ex_event_a_empty]) = Inr () \<and>
   expires_at (snd (update ex_cam 3000000000 [ex_event_a_empty])) = expires_at ex_cam \<and>
   expires_at ex_cam \<noteq> 3000000000 + 45 * 60 * 1000000"
  by (simp add: update_def ex_cam_def ex_event_a_empty_def ex_video_empty_def ex_video_a_def)

text \<open>
  C6, amended. For every refresh at a time at or past \<open>expires_at\<close> whose newest
  fetched event (even one whose identifier equals \<open>last_video_id\<close>) has a first type-2
  data item carrying a non-empty file reference, the refresh returns normally and sets
  \<open>expires_at\<close> to exactly the time of the refresh plus 45 minutes.
\<close>

theorem forced_refresh_resets_expiry:
  assumes "now \<ge> expires_at self"
    and "find (\<lambda>d. file_type d = Some 2) (data ev) = Some d"
    and "file_ref d = Some u" and "u \<noteq> []"
  shows "fst (update self now (evs @ [ev])) = Inr () \<and>
         expires_at (snd (update self now (evs @ [ev]))) = now + 45 * 60 * 1000000"
  using assms by (simp add: update_last get_event_video_url_find FORCE_REFRESH_INTERVAL_def)

theorem forced_refresh_resets_expiry_witness:
  "expires_at ex_cam \<le> 3000000000 \<and>
   last_video_id ex_cam = Some (id_ev ex_event_a) \<and>
   find (\<lambda>d. file_type d = Some 2) (data ex_event_a) = Some ex_video_a \<and>
   file_ref ex_video_a = Some ''https://cdn.example/a.mp4'' \<and>
   fst (update ex_cam 3000000000 ([] @ [ex_event_a])) = Inr () \<and>
   expires_at (snd (update ex_cam 3000000000 ([] @ [ex_event_a]))) = 5700000000"
  using forced_refresh_resets_expiry
    [of ex_cam 3000000000 ex_event_a ex_video_a "''https://cdn.example/a.mp4''" "[]"]
  by (simp add: ex_cam_def ex_event_a_def ex_image_def ex_video_a_def)

section \<open>Where a published URL comes from (C7)\<close>

lemma init_url_source:
  assumes "init f cam cfg fetched now = Inr s" and "video_url s = Some u"
  shows "\<exists>ev\<in>set fetched. \<exists>d\<in>set (data ev). file_type d = Some 2 \<and> file_ref d = Some u"
proof -
  from assms have ne: "fetched \<noteq> []"
    and g: "get_event_video_url (data (last fetched)) = Inr (Some u)"
    by (auto simp: init_def Let_def split: if_splits sum.splits)
  from ne have "last fetched \<in> set fetched" by simp
  with get_event_video_url_mem [OF g] show ?thesis by blast
qed

lemma update_url_source:
  assumes "video_url (snd (update self now fetched)) = Some u"
  shows "video_url self = Some u \<or>
         (\<exists>ev\<in>set fetched. \<exists>d\<in>set (data ev). file_type d = Some 2 \<and> file_ref d = Some u)"
proof (cases fetched rule: rev_cases)
  case Nil
  with assms show ?thesis by (simp add: update_empty)
next
  case (snoc evs ev)
  show ?thesis
  proof (cases "video_url self = Some u")
    case True
    then show ?thesis by simp
  next
    case False
    with assms snoc have "get_event_video_url (data ev) = Inr (Some u)"
      by (auto simp: update_last split: if_splits sum.splits)
    from get_event_video_url_mem [OF this] snoc show ?thesis by auto
  qed
qed

lemma polls_url_source:
  "video_url (polls self ps) = Some u \<Longrightarrow>
     video_url self = Some u \<or>
     (\<exists>p\<in>set ps. \<exists>ev\<in>set (snd p). \<exists>d\<in>set (data ev).
        file_type d = Some 2 \<and> file_ref d = Some u)"
proof (induction ps arbitrary: self)
  case Nil
  then show ?case by simp
next
  case (Cons p ps)
  obtain now fetched where p: "p = (now, fetched)" by (cases p)
  from Cons.prems p have "video_url (polls (snd (update self now fetched)) ps) = Some u"
    by simp
  from Cons.IH [OF this] show ?case
  proof
    assume "video_url (snd (update self now fetched)) = Some u"
    from update_url_source [OF this] p show ?thesis by auto
  next
    assume "\<exists>p\<in>set ps. \<exists>ev\<in>set (snd p). \<exists>d\<in>set (data ev).
              file_type d = Some 2 \<and> file_ref d = Some u"
    then show ?thesis by auto
  qed
qed

text \<open>
  C7. In every state reached by construction followed by any number of refreshes,
  \<open>video_url\<close>, when it is not absent, is the file reference of a data item with
  file-type tag 2 in the data of an event the instance was shown: an event of the list
  read at construction or of a list fetched by one of the refreshes. No other URL is
  ever published.
\<close>

theorem video_url_from_observed_event:
  assumes "init f cam cfg fetched0 now0 = Inr s0"
    and "video_url (polls s0 ps) = Some u"
  shows "\<exists>ev \<in> set fetched0 \<union> (\<Union>p\<in>set ps. set (snd p)).
           \<exists>d\<in>set (data ev). file_type d = Some 2 \<and> file_ref d = Some u"
  using polls_url_source [OF assms(2)] init_url_source [OF assms(1)] by blast

theorem video_url_from_observed_event_witness:
  "init ex_ffmpeg ex_camera Map.empty [ex_event_a] 0 = Inr ex_cam \<and>
   video_url (polls ex_cam [(1000000, [ex_event_a, ex_event_c]),
                            (2000000, [ex_event_a, ex_event_c, ex_event_b])])
     = Some ''https://cdn.example/b.mp4'' \<and>
   (\<exists>ev \<in> set [ex_event_a] \<union>
           (\<Union>p\<in>set [(1000000 :: int, [ex_event_a, ex_event_c]),
                       (2000000, [ex_event_a, ex_event_c, ex_event_b])]. set (snd p)).
      \<exists>d\<in>set (data ev). file_type d = Some 2 \<and> file_ref d = Some ''https://cdn.example/b.mp4'')"
proof -
  have c: "init ex_ffmpeg ex_camera Map.empty [ex_event_a] 0 = Inr ex_cam"
    by (simp add: init_def Let_def ex_cam_def ex_event_a_def ex_image_def ex_video_a_def CONF_FFMPEG_ARGUMENTS_def FORCE_REFRESH_INTERVAL_def)
  have p: "video_url (polls ex_cam [(1000000, [ex_event_a, ex_event_c]),
                                    (2000000, [ex_event_a, ex_event_c, ex_event_b])])
             = Some ''https://cdn.example/b.mp4''"
    by (simp add: update_def ex_cam_def ex_event_a_def ex_event_b_def ex_event_c_def ex_image_def ex_video_a_def ex_video_b_def)
  from video_url_from_observed_event [OF c p]
  have "\<exists>ev \<in> set [ex_event_a] \<union>
               (\<Union>p\<in>set [(1000000 :: int, [ex_event_a, ex_event_c]),
                           (2000000, [ex_event_a, ex_event_c, ex_event_b])]. set (snd p)).
          \<exists>d\<in>set (data ev). file_type d = Some 2 \<and>
             file_ref d = Some ''https://cdn.example/b.mp4''" .
  with c p show ?thesis by (intro conjI)
qed

section \<open>Still image and stream without a URL (C8)\<close>

text \<open>
  C8. For every state in which \<open>video_url\<close> is absent, the still-image fetch and the
  stream proxy both return no content (\<^verbatim>\<open>None\<close>) without invoking the transcoding
  helper: the stream proxy calls nothing at all, and the still-image fetch has only
  built its \<^verbatim>\<open>ImageFrame\<close> wrapper object, which precedes the test in the source
  and starts nothing.
\<close>

theorem absent_url_no_content:
  assumes "video_url self = None"
  shows "async_camera_image env self = (Inr None, [New_ImageFrame (binary (ffmpeg self))]) \<and>
         filter helper_invoked (snd (async_camera_image env self)) = [] \<and>
         handle_async_mjpeg_stream env self request = (Inr None, []) \<and>
         filter helper_invoked (snd (handle_async_mjpeg_stream env self request)) = []"
  using assms by (simp add: async_camera_image_def handle_async_mjpeg_stream_def)

theorem absent_url_no_content_witness:
  "video_url ex_cam_empty = None \<and>
   async_camera_image ex_env ex_cam_empty = (Inr None, [New_ImageFrame ''ffmpeg'']) \<and>
   filter helper_invoked (snd (async_camera_image ex_env ex_cam_empty)) = [] \<and>
   handle_async_mjpeg_stream ex_env ex_cam_empty ''GET /api/camera_proxy_stream/camera.porch''
     = (Inr None, [])"
  using absent_url_no_content
    [of ex_cam_empty ex_env "''GET /api/camera_proxy_stream/camera.porch''"]
  by (simp add: ex_cam_empty_def ex_ffmpeg_def)

section \<open>Release of the stream session (C9)\<close>

text \<open>
  C9. For every call of the stream proxy with a \<open>video_url\<close> that is not absent, the
  session that \<^verbatim>\<open>open_camera\<close> opened against that URL is closed on every exit
  path: whatever \<^verbatim>\<open>get_reader\<close>, the proxy copy and \<^verbatim>\<open>close\<close> itself do (return
  or raise), \<^verbatim>\<open>close\<close> is called exactly once, after the opening, and it is the
  last call made before the coroutine returns or its exception propagates. (When
  \<^verbatim>\<open>open_camera\<close> itself raises, the coroutine ends before its \<^verbatim>\<open>try\<close>
  statement with no session to release.)
\<close>

theorem stream_session_closed:
  assumes "video_url self = Some url"
    and "open_camera env url (ffmpeg_arguments self) = Inr ()"
  shows "\<exists>body_calls.
           snd (handle_async_mjpeg_stream env self request) =
             [New_CameraMjpeg (binary (ffmpeg self)),
              Call_open_camera url (ffmpeg_arguments self)]
               @ body_calls @ [Call_close] \<and>
           Call_close \<notin> set body_calls"
  using assms
  by (auto simp: handle_async_mjpeg_stream_def try_finally_def Let_def split: sum.splits)

text \<open>The client hangs up during the copy: the exception propagates after the close.\<close>

theorem stream_session_closed_witness:
  "video_url ex_cam = Some ''https://cdn.example/a.mp4'' \<and>
   open_camera ex_env ''https://cdn.example/a.mp4'' (ffmpeg_arguments ex_cam) = Inr () \<and>
   fst (handle_async_mjpeg_stream ex_env ex_cam ''GET /stream'')
     = Inl (Raised ''ConnectionResetError'') \<and>
   (\<exists>body_calls.
      snd (handle_async_mjpeg_stream ex_env ex_cam ''GET /stream'') =
        [New_CameraMjpeg (binary (ffmpeg ex_cam)),
         Call_open_camera ''https://cdn.example/a.mp4'' (ffmpeg_arguments ex_cam)]
          @ body_calls @ [Call_close] \<and>
      Call_close \<notin> set body_calls)"
proof -
  have u: "video_url ex_cam = Some ''https://cdn.example/a.mp4''"
    by (simp add: ex_cam_def)
  have opn: "open_camera ex_env ''https://cdn.example/a.mp4'' (ffmpeg_arguments ex_cam) = Inr ()"
    by (simp add: ex_env_def ex_cam_def)
  have r: "fst (handle_async_mjpeg_stream ex_env ex_cam ''GET /stream'')
             = Inl (Raised ''ConnectionResetError'')"
    by (simp add: handle_async_mjpeg_stream_def try_finally_def ex_cam_def ex_env_def ex_ffmpeg_def)
  from u opn r stream_session_closed [OF u opn, of "''GET /stream''"]
  show ?thesis by (intro conjI)
qed

section \<open>An empty file reference (C10)\<close>

text \<open>
  C10. When the first type-2 data item of the newest event carries the empty string as
  its file reference, construction adopts it (\<open>video_url\<close> becomes the empty string),
  but a refresh never does: its guard tests the truth value of the extracted URL, not
  its presence, so at any time and from any state the refresh returns normally with
  \<open>last_video_id\<close>, \<open>video_url\<close> and \<open>expires_at\<close> unchanged, exactly as it does for
  the same event stripped of its type-2 items.
\<close>

theorem empty_url_construction_vs_refresh:
  assumes "find (\<lambda>d. file_type d = Some 2) (data ev) = Some d"
    and "file_ref d = Some []"
  shows "(\<exists>s. init f cam cfg (evs @ [ev]) now = Inr s \<and> video_url s = Some []) \<and>
         update self t (evs @ [ev]) = (Inr (), self\<lparr>utcnow := t\<rparr>) \<and>
         last_video_id (snd (update self t (evs @ [ev]))) = last_video_id self \<and>
         video_url (snd (update self t (evs @ [ev]))) = video_url self \<and>
         expires_at (snd (update self t (evs @ [ev]))) = expires_at self \<and>
         update self t (evs @ [ev]) =
           update self t (evs @ [ev\<lparr>data := filter (\<lambda>d. file_type d \<noteq> Some 2) (data ev)\<rparr>])"
proof -
  have g: "get_event_video_url (data ev) = Inr (Some [])"
    using assms by (simp add: get_event_video_url_find)
  have n: "get_event_video_url (filter (\<lambda>d. file_type d \<noteq> Some 2) (data ev)) = Inr None"
    by (rule get_event_video_url_no_video) simp
  from g have 1: "\<exists>s. init f cam cfg (evs @ [ev]) now = Inr s \<and> video_url s = Some []"
    by (simp add: init_def Let_def)
  from g have 2: "update self t (evs @ [ev]) = (Inr (), self\<lparr>utcnow := t\<rparr>)"
    by (simp add: update_last)
  from n have 3:
    "update self t (evs @ [ev\<lparr>data := filter (\<lambda>d. file_type d \<noteq> Some 2) (data ev)\<rparr>])
       = (Inr (), self\<lparr>utcnow := t\<rparr>)"
    by (simp add: update_last)
  from 1 2 3 show ?thesis by simp
qed

text \<open>Past the deadline, with an unchanged identifier and a proper video second in line.\<close>

theorem empty_url_construction_vs_refresh_witness:
  "find (\<lambda>d. file_type d = Some 2) (data ex_event_a_empty) = Some ex_video_empty \<and>
   file_ref ex_video_empty = Some [] \<and>
   expires_at ex_cam \<le> 3000000000 \<and>
   (\<exists>s. init ex_ffmpeg ex_camera Map.empty ([] @ [ex_event_a_empty]) 0 = Inr s \<and>
        video_url s = Some []) \<and>
   update ex_cam 3000000000 ([] @ [ex_event_a_empty]) = (Inr (), ex_cam\<lparr>utcnow := 3000000000\<rparr>)"
proof -
  have f: "find (\<lambda>d. file_type d = Some 2) (data ex_event_a_empty) = Some ex_video_empty"
    by (simp add: ex_event_a_empty_def ex_video_empty_def ex_video_a_def)
  have e: "file_ref ex_video_empty = Some []"
    by (simp add: ex_video_empty_def)
  have x: "expires_at ex_cam \<le> 3000000000"
    by (simp add: ex_cam_def)
  from empty_url_construction_vs_refresh
         [OF f e, of ex_ffmpeg ex_camera Map.empty "[]" 0 ex_cam 3000000000]
  have "(\<exists>s. init ex_ffmpeg ex_camera Map.empty ([] @ [ex_event_a_empty]) 0 = Inr s \<and>
             video_url s = Some [])"
    and "update ex_cam 3000000000 ([] @ [ex_event_a_empty])
           = (Inr (), ex_cam\<lparr>utcnow := 3000000000\<rparr>)"
    by (rule conjunct1, rule conjunct2 [THEN conjunct1])
  with f e x show ?thesis by (intro conjI)
qed

end
